theory Spec2Isabelle
  imports Complex_Main
begin

section \<open>Data model of the Herschel-Bulkley 2D law\<close>

text \<open>
  The embedding follows \<^verbatim>\<open>herschel_bulkley_2D_law.cpp\<close>. A C++ \<^verbatim>\<open>double\<close> is
  read as a real number and every arithmetic operation as the exact operation on reals,
  which is the reading under which the formulas of the specification are equations;
  rounding is not part of this model. \<^verbatim>\<open>std::sqrt\<close> is \<open>sqrt\<close>,
  \<^verbatim>\<open>std::exp\<close> is \<open>exp\<close>, and \<^verbatim>\<open>std::pow\<close>, whose only call has a base that is
  at least the tolerance and therefore positive, is the real power \<open>powr\<close>. A second
  reading of lines 62-83, in binary64 arithmetic with its rounding, infinities and NaN,
  serves the one statement that is about finiteness.
\<close>

text \<open>The variables the law reads from the material properties.\<close>

datatype Variable =
  DYNAMIC_VISCOSITY | YIELD_SHEAR | FLOW_INDEX | ADAPTIVE_EXPONENT | BULK_MODULUS

text \<open>
  \<^verbatim>\<open>Properties\<close> is read only through \<^verbatim>\<open>operator[]\<close> on a variable, which yields a
  \<^verbatim>\<open>double\<close> for every variable: a total lookup.
\<close>

type_synonym Properties = "Variable \<Rightarrow> real"

type_synonym Vector = "real list"

type_synonym Matrix = "real list list"

datatype Flag = COMPUTE_CONSTITUTIVE_TENSOR | OTHER_FLAG nat

type_synonym Flags = "Flag set"

definition Is :: "Flags \<Rightarrow> Flag \<Rightarrow> bool" where
  "Is r_options f = (f \<in> r_options)"

text \<open>
  \<^verbatim>\<open>ConstitutiveLaw::Parameters\<close>, as far as the law touches it: the options, the
  material properties, and the three caller-owned buffers, taken to be distinct objects.
  The law indexes the strain and the stress vector at 0, 1 and 2 without a check of
  their size; the statements about their components are about vectors of size 3, the
  value of \<^verbatim>\<open>GetStrainSize\<close>.
\<close>

record Parameters =
  Options :: Flags
  MaterialProperties :: Properties
  StrainVector :: Vector
  StressVector :: Vector
  ConstitutiveMatrix :: Matrix

definition WorkingSpaceDimension :: nat where
  "WorkingSpaceDimension = 2"

definition GetStrainSize :: nat where
  "GetStrainSize = 3"

definition GetEffectiveMaterialParameter :: "Parameters \<Rightarrow> Variable \<Rightarrow> real" where
  "GetEffectiveMaterialParameter rParameters rVariable = MaterialProperties rParameters rVariable"

section \<open>CalculateMaterialResponseCauchy\<close>

text \<open>Lines 68-70: the equivalent strain rate of the strain vector.\<close>

definition equivalent_strain_rate :: "Vector \<Rightarrow> real" where
  "equivalent_strain_rate r_strain_vector =
     sqrt (2 * r_strain_vector ! 0 * r_strain_vector ! 0
         + 2 * r_strain_vector ! 1 * r_strain_vector ! 1
         + 4 * r_strain_vector ! 2 * r_strain_vector ! 2)"

definition tolerance :: real where
  "tolerance = 1 / 10 ^ 8"

text \<open>Line 81.\<close>

definition regularization :: "real \<Rightarrow> real \<Rightarrow> real" where
  "regularization adaptive_exponent esr = 1 - exp (- adaptive_exponent * esr)"

text \<open>
  Line 82: the value assigned in the else branch, as a function of the four parameters
  and of the equivalent strain rate \<open>esr\<close>.
\<close>

definition regularized_viscosity :: "real \<Rightarrow> real \<Rightarrow> real \<Rightarrow> real \<Rightarrow> real \<Rightarrow> real" where
  "regularized_viscosity dynamic_viscosity yield_shear adaptive_exponent flow_index esr =
     dynamic_viscosity * esr powr (flow_index - 1)
     + regularization adaptive_exponent esr * yield_shear / esr"

text \<open>Lines 73-83: the branch on the tolerance.\<close>

definition effective_dynamic_viscosity :: "real \<Rightarrow> real \<Rightarrow> real \<Rightarrow> real \<Rightarrow> real \<Rightarrow> real" where
  "effective_dynamic_viscosity dynamic_viscosity yield_shear adaptive_exponent flow_index esr =
     (if esr < tolerance then yield_shear * adaptive_exponent
      else regularized_viscosity dynamic_viscosity yield_shear adaptive_exponent flow_index esr)"

text \<open>
  Lines 62-83 as one function of the call's arguments: what the specification calls
  \<^verbatim>\<open>computeEffectiveViscosity\<close>.
\<close>

definition computeEffectiveViscosity :: "Parameters \<Rightarrow> real" where
  "computeEffectiveViscosity rValues =
     (let r_properties = MaterialProperties rValues;
          r_strain_vector = StrainVector rValues;
          dynamic_viscosity = GetEffectiveMaterialParameter rValues DYNAMIC_VISCOSITY;
          yield_shear = GetEffectiveMaterialParameter rValues YIELD_SHEAR;
          adaptive_exponent = r_properties ADAPTIVE_EXPONENT;
          flow_index = r_properties FLOW_INDEX
      in effective_dynamic_viscosity dynamic_viscosity yield_shear adaptive_exponent flow_index
           (equivalent_strain_rate r_strain_vector))"

text \<open>
  Lines 85-91: the three assignments to the stress vector, for a given effective
  viscosity; what the specification calls \<^verbatim>\<open>computeDeviatoricStress\<close>.
\<close>

definition computeDeviatoricStress :: "real \<Rightarrow> Vector \<Rightarrow> Vector \<Rightarrow> Vector" where
  "computeDeviatoricStress effective_viscosity r_strain_vector r_stress_vector =
     (let strain_trace = r_strain_vector ! 0 + r_strain_vector ! 1;
          r_stress_vector = r_stress_vector
            [0 := 2 * effective_viscosity * (r_strain_vector ! 0 - strain_trace / 3)];
          r_stress_vector = r_stress_vector
            [1 := 2 * effective_viscosity * (r_strain_vector ! 1 - strain_trace / 3)];
          r_stress_vector = r_stress_vector
            [2 := 2 * effective_viscosity * r_strain_vector ! 2]
      in r_stress_vector)"

text \<open>
  The whole call. \<^verbatim>\<open>EffectiveViscousConstitutiveMatrix2D\<close> belongs to the base class
  \<^verbatim>\<open>PfemFluidConstitutiveLaw\<close>, whose source is not among the sources; it is a
  parameter of the model, a function of the viscosity and of the matrix it is handed.
\<close>

definition CalculateMaterialResponseCauchy ::
    "(real \<Rightarrow> Matrix \<Rightarrow> Matrix) \<Rightarrow> Parameters \<Rightarrow> Parameters" where
  "CalculateMaterialResponseCauchy EffectiveViscousConstitutiveMatrix2D rValues =
     (let r_options = Options rValues;
          r_strain_vector = StrainVector rValues;
          r_stress_vector = StressVector rValues;
          effective_viscosity = computeEffectiveViscosity rValues;
          rValues = rValues\<lparr>StressVector :=
            computeDeviatoricStress effective_viscosity r_strain_vector r_stress_vector\<rparr>
      in if Is r_options COMPUTE_CONSTITUTIVE_TENSOR
         then rValues\<lparr>ConstitutiveMatrix :=
                EffectiveViscousConstitutiveMatrix2D effective_viscosity (ConstitutiveMatrix rValues)\<rparr>
         else rValues)"

section \<open>Check\<close>

text \<open>
  What a failed check raises: the text streamed into the exception and the value streamed
  after it.
\<close>

datatype Exception = Error string real

text \<open>
  Modelled from the spec: the macro \<^verbatim>\<open>KRATOS_ERROR_IF\<close> is declared in a header that is
  not among the sources. Section 7 of the specification has a violation surface
  immediately to the caller, who aborts the material setup, and the only \<^verbatim>\<open>return\<close> of
  \<^verbatim>\<open>Check\<close> returns 0, the status of a valid parameter set: a true condition raises the
  exception with the streamed message and value, and nothing after it runs; a false
  condition continues with the next statement.
\<close>

definition KRATOS_ERROR_IF ::
    "bool \<Rightarrow> string \<Rightarrow> real \<Rightarrow> (Exception + int) \<Rightarrow> Exception + int" where
  "KRATOS_ERROR_IF conditional message val continue =
     (if conditional then Inl (Error message val) else continue)"

text \<open>
  Lines 104-129. The element geometry and the process info are arguments the body never
  reads.
\<close>

definition Check :: "Properties \<Rightarrow> 'geometry \<Rightarrow> 'process_info \<Rightarrow> Exception + int" where
  "Check rMaterialProperties rElementGeometry rCurrentProcessInfo =
     KRATOS_ERROR_IF (rMaterialProperties DYNAMIC_VISCOSITY < 0)
       ''Incorrect or missing DYNAMIC_VISCOSITY provided in process info for HerschelBulkley2DLaw: ''
       (rMaterialProperties DYNAMIC_VISCOSITY)
    (KRATOS_ERROR_IF (rMaterialProperties YIELD_SHEAR < 0)
       ''Incorrect or missing YIELD_SHEAR provided in process info for HerschelBulkley2DLaw: ''
       (rMaterialProperties YIELD_SHEAR)
    (KRATOS_ERROR_IF (rMaterialProperties FLOW_INDEX < 0)
       ''Incorrect or missing FLOW_INDEX provided in process info for HerschelBulkley2DLaw: ''
       (rMaterialProperties FLOW_INDEX)
    (KRATOS_ERROR_IF (rMaterialProperties ADAPTIVE_EXPONENT < 0)
       ''Incorrect or missing ADAPTIVE_EXPONENT provided in process info for HerschelBulkley2DLaw: ''
       (rMaterialProperties ADAPTIVE_EXPONENT)
    (KRATOS_ERROR_IF (rMaterialProperties BULK_MODULUS < 0)
       ''Incorrect or missing BULK_MODULUS provided in process info for HerschelBulkley2DLaw: ''
       (rMaterialProperties BULK_MODULUS)
    (Inr 0)))))"

text \<open>
  The name of a variable, and the message that names it: the vocabulary in which the
  statements about \<open>Check\<close> speak of a reported violation.
\<close>

fun variable_name :: "Variable \<Rightarrow> string" where
  "variable_name DYNAMIC_VISCOSITY = ''DYNAMIC_VISCOSITY''"
| "variable_name YIELD_SHEAR = ''YIELD_SHEAR''"
| "variable_name FLOW_INDEX = ''FLOW_INDEX''"
| "variable_name ADAPTIVE_EXPONENT = ''ADAPTIVE_EXPONENT''"
| "variable_name BULK_MODULUS = ''BULK_MODULUS''"

definition violation :: "Properties \<Rightarrow> Variable \<Rightarrow> Exception" where
  "violation rMaterialProperties v =
     Error (''Incorrect or missing '' @ variable_name v
            @ '' provided in process info for HerschelBulkley2DLaw: '')
       (rMaterialProperties v)"

text \<open>The order in which \<open>Check\<close> tests the variables.\<close>

definition check_order :: "Variable list" where
  "check_order = [DYNAMIC_VISCOSITY, YIELD_SHEAR, FLOW_INDEX, ADAPTIVE_EXPONENT, BULK_MODULUS]"

section \<open>Doubles: binary64 with round to nearest\<close>

text \<open>
  Whether a result is finite is a question about \<^verbatim>\<open>double\<close>, not about the reals. The
  second reading is binary64 arithmetic in the default rounding mode: a \<^verbatim>\<open>double\<close> is
  a finite real, an infinity or a NaN; addition, subtraction, multiplication, division
  and the square root return the exact result rounded to nearest, ties to even, with
  subnormal numbers and with overflow to an infinity; each operation of the source
  rounds once. The sign of zero is not modelled: every zero divisor counts as \<open>+0\<close>, and
  the source divides by no zero. \<^verbatim>\<open>std::exp\<close> and \<^verbatim>\<open>std::pow\<close> belong to the C library and
  are not required to round correctly: they are parameters of this reading. \<open>Finite\<close>
  takes any real; every result of an operation is a double, and the statements hold for
  all arguments, the doubles among them.
\<close>

text \<open>The integer nearest to \<open>q\<close>, the even one of two equally near.\<close>

definition round_half_even :: "real \<Rightarrow> int" where
  "round_half_even q =
     (if q - of_int \<lfloor>q\<rfloor> < 1 / 2 then \<lfloor>q\<rfloor>
      else if 1 / 2 < q - of_int \<lfloor>q\<rfloor> then \<lfloor>q\<rfloor> + 1
      else if even \<lfloor>q\<rfloor> then \<lfloor>q\<rfloor> else \<lfloor>q\<rfloor> + 1)"

text \<open>
  The exponent of the binade of \<open>r\<close>, not below the least normal exponent, and the
  distance of neighbouring doubles there: 52 fraction bits, subnormals below \<open>2 ^ - 1022\<close>.
\<close>

definition binade :: "real \<Rightarrow> int" where
  "binade r = max \<lfloor>log 2 \<bar>r\<bar>\<rfloor> (- 1022)"

definition ulp :: "real \<Rightarrow> real" where
  "ulp r = 2 powr of_int (binade r - 52)"

text \<open>Round to nearest, ties to even, with the exponent unbounded above.\<close>

definition round_to_nearest :: "real \<Rightarrow> real" where
  "round_to_nearest r = (if r = 0 then 0 else of_int (round_half_even (r / ulp r)) * ulp r)"

datatype double = Finite real | PlusInfinity | MinusInfinity | NaN

text \<open>
  The result of an operation whose exact value is \<open>r\<close>: \<open>r\<close> rounded to nearest, and an
  infinity when the rounded value has left the range, that is from \<open>2 ^ 1024 - 2 ^ 970\<close>
  on.
\<close>

definition round_double :: "real \<Rightarrow> double" where
  "round_double r =
     (if 2 ^ 1024 \<le> round_to_nearest r then PlusInfinity
      else if round_to_nearest r \<le> - (2 ^ 1024) then MinusInfinity
      else Finite (round_to_nearest r))"

fun d_uminus :: "double \<Rightarrow> double" where
  "d_uminus (Finite a) = Finite (- a)"
| "d_uminus PlusInfinity = MinusInfinity"
| "d_uminus MinusInfinity = PlusInfinity"
| "d_uminus NaN = NaN"

fun d_add :: "double \<Rightarrow> double \<Rightarrow> double" where
  "d_add NaN y = NaN"
| "d_add x NaN = NaN"
| "d_add (Finite a) (Finite b) = round_double (a + b)"
| "d_add PlusInfinity MinusInfinity = NaN"
| "d_add MinusInfinity PlusInfinity = NaN"
| "d_add PlusInfinity y = PlusInfinity"
| "d_add x PlusInfinity = PlusInfinity"
| "d_add MinusInfinity y = MinusInfinity"
| "d_add x MinusInfinity = MinusInfinity"

definition d_sub :: "double \<Rightarrow> double \<Rightarrow> double" where
  "d_sub x y = d_add x (d_uminus y)"

definition infinity_of_sign :: "bool \<Rightarrow> double" where
  "infinity_of_sign negative = (if negative then MinusInfinity else PlusInfinity)"

fun d_mult :: "double \<Rightarrow> double \<Rightarrow> double" where
  "d_mult NaN y = NaN"
| "d_mult x NaN = NaN"
| "d_mult (Finite a) (Finite b) = round_double (a * b)"
| "d_mult (Finite a) PlusInfinity = (if a = 0 then NaN else infinity_of_sign (a < 0))"
| "d_mult (Finite a) MinusInfinity = (if a = 0 then NaN else infinity_of_sign (0 < a))"
| "d_mult PlusInfinity (Finite b) = (if b = 0 then NaN else infinity_of_sign (b < 0))"
| "d_mult MinusInfinity (Finite b) = (if b = 0 then NaN else infinity_of_sign (0 < b))"
| "d_mult PlusInfinity PlusInfinity = PlusInfinity"
| "d_mult MinusInfinity MinusInfinity = PlusInfinity"
| "d_mult PlusInfinity MinusInfinity = MinusInfinity"
| "d_mult MinusInfinity PlusInfinity = MinusInfinity"

fun d_div :: "double \<Rightarrow> double \<Rightarrow> double" where
  "d_div NaN y = NaN"
| "d_div x NaN = NaN"
| "d_div (Finite a) (Finite b) =
     (if b = 0 then (if a = 0 then NaN else infinity_of_sign (a < 0))
      else round_double (a / b))"
| "d_div (Finite a) y = Finite 0"
| "d_div PlusInfinity (Finite b) = infinity_of_sign (b < 0)"
| "d_div MinusInfinity (Finite b) = infinity_of_sign (0 \<le> b)"
| "d_div x y = NaN"

fun d_sqrt :: "double \<Rightarrow> double" where
  "d_sqrt (Finite a) = (if a < 0 then NaN else round_double (sqrt a))"
| "d_sqrt PlusInfinity = PlusInfinity"
| "d_sqrt MinusInfinity = NaN"
| "d_sqrt NaN = NaN"

fun d_less :: "double \<Rightarrow> double \<Rightarrow> bool" where
  "d_less NaN y = False"
| "d_less x NaN = False"
| "d_less (Finite a) (Finite b) = (a < b)"
| "d_less x MinusInfinity = False"
| "d_less PlusInfinity y = False"
| "d_less MinusInfinity y = True"
| "d_less x PlusInfinity = True"

text \<open>
  One libm: the correctly rounded exponential and power, with the special cases of
  Annex F of the C standard. \<^verbatim>\<open>pow(x, 0)\<close> and \<^verbatim>\<open>pow(1, y)\<close> are 1 for every other
  argument, a NaN included.
\<close>

fun d_exp :: "double \<Rightarrow> double" where
  "d_exp (Finite a) = round_double (exp a)"
| "d_exp PlusInfinity = PlusInfinity"
| "d_exp MinusInfinity = Finite 0"
| "d_exp NaN = NaN"

definition odd_integer :: "real \<Rightarrow> bool" where
  "odd_integer b = (of_int \<lfloor>b\<rfloor> = b \<and> odd \<lfloor>b\<rfloor>)"

fun pow_cases :: "double \<Rightarrow> double \<Rightarrow> double" where
  "pow_cases NaN y = NaN"
| "pow_cases x NaN = NaN"
| "pow_cases (Finite a) (Finite b) =
     (if a = 0 then (if b < 0 then PlusInfinity else Finite 0)
      else if 0 < a then round_double (a powr b)
      else if of_int \<lfloor>b\<rfloor> = b
        then round_double (if odd \<lfloor>b\<rfloor> then - (\<bar>a\<bar> powr b) else \<bar>a\<bar> powr b)
      else NaN)"
| "pow_cases (Finite a) PlusInfinity =
     (if \<bar>a\<bar> < 1 then Finite 0 else if \<bar>a\<bar> = 1 then Finite 1 else PlusInfinity)"
| "pow_cases (Finite a) MinusInfinity =
     (if \<bar>a\<bar> < 1 then PlusInfinity else if \<bar>a\<bar> = 1 then Finite 1 else Finite 0)"
| "pow_cases PlusInfinity (Finite b) = (if b < 0 then Finite 0 else PlusInfinity)"
| "pow_cases PlusInfinity PlusInfinity = PlusInfinity"
| "pow_cases PlusInfinity MinusInfinity = Finite 0"
| "pow_cases MinusInfinity (Finite b) =
     (if b < 0 then Finite 0 else if odd_integer b then MinusInfinity else PlusInfinity)"
| "pow_cases MinusInfinity PlusInfinity = PlusInfinity"
| "pow_cases MinusInfinity MinusInfinity = Finite 0"

definition d_pow :: "double \<Rightarrow> double \<Rightarrow> double" where
  "d_pow x y =
     (if y = Finite 0 then Finite 1
      else if x = Finite 1 then Finite 1
      else pow_cases x y)"

text \<open>
  Lines 62-83 in this reading. The literal \<^verbatim>\<open>1e-8\<close> is the double nearest to it, the
  other constants are doubles as they stand, and \<^verbatim>\<open>std::exp\<close> and \<^verbatim>\<open>std::pow\<close> are
  the parameters \<open>std_exp\<close> and \<open>std_pow\<close>.
\<close>

definition tolerance_double :: double where
  "tolerance_double = round_double (1 / 10 ^ 8)"

definition equivalent_strain_rate_double :: "double list \<Rightarrow> double" where
  "equivalent_strain_rate_double r_strain_vector =
     d_sqrt
       (d_add
         (d_add
           (d_mult (d_mult (Finite 2) (r_strain_vector ! 0)) (r_strain_vector ! 0))
           (d_mult (d_mult (Finite 2) (r_strain_vector ! 1)) (r_strain_vector ! 1)))
         (d_mult (d_mult (Finite 4) (r_strain_vector ! 2)) (r_strain_vector ! 2)))"

definition regularization_double :: "(double \<Rightarrow> double) \<Rightarrow> double \<Rightarrow> double \<Rightarrow> double" where
  "regularization_double std_exp adaptive_exponent esr =
     d_sub (Finite 1) (std_exp (d_mult (d_uminus adaptive_exponent) esr))"

definition power_double :: "(double \<Rightarrow> double \<Rightarrow> double) \<Rightarrow> double \<Rightarrow> double \<Rightarrow> double" where
  "power_double std_pow flow_index esr = std_pow esr (d_sub flow_index (Finite 1))"

definition effective_dynamic_viscosity_double ::
    "(double \<Rightarrow> double) \<Rightarrow> (double \<Rightarrow> double \<Rightarrow> double)
      \<Rightarrow> double \<Rightarrow> double \<Rightarrow> double \<Rightarrow> double \<Rightarrow> double \<Rightarrow> double" where
  "effective_dynamic_viscosity_double std_exp std_pow
       dynamic_viscosity yield_shear adaptive_exponent flow_index esr =
     (if d_less esr tolerance_double then d_mult yield_shear adaptive_exponent
      else d_add
             (d_mult dynamic_viscosity (power_double std_pow flow_index esr))
             (d_div (d_mult (regularization_double std_exp adaptive_exponent esr) yield_shear)
                esr))"

definition computeEffectiveViscosity_double ::
    "(double \<Rightarrow> double) \<Rightarrow> (double \<Rightarrow> double \<Rightarrow> double)
      \<Rightarrow> (Variable \<Rightarrow> double) \<Rightarrow> double list \<Rightarrow> double" where
  "computeEffectiveViscosity_double std_exp std_pow r_properties r_strain_vector =
     (let dynamic_viscosity = r_properties DYNAMIC_VISCOSITY;
          yield_shear = r_properties YIELD_SHEAR;
          adaptive_exponent = r_properties ADAPTIVE_EXPONENT;
          flow_index = r_properties FLOW_INDEX
      in effective_dynamic_viscosity_double std_exp std_pow
           dynamic_viscosity yield_shear adaptive_exponent flow_index
           (equivalent_strain_rate_double r_strain_vector))"

text \<open>A double that is a non-negative number or \<open>+Inf\<close>.\<close>

definition nonnegative :: "double \<Rightarrow> bool" where
  "nonnegative d =
     (case d of Finite r \<Rightarrow> 0 \<le> r | PlusInfinity \<Rightarrow> True | MinusInfinity \<Rightarrow> False | NaN \<Rightarrow> False)"


section \<open>Example inputs\<close>

text \<open>The properties with the five given values.\<close>

definition properties_of :: "real \<Rightarrow> real \<Rightarrow> real \<Rightarrow> real \<Rightarrow> real \<Rightarrow> Properties" where
  "properties_of dynamic_viscosity yield_shear flow_index adaptive_exponent bulk_modulus =
     (\<lambda>v. case v of
        DYNAMIC_VISCOSITY \<Rightarrow> dynamic_viscosity
      | YIELD_SHEAR \<Rightarrow> yield_shear
      | FLOW_INDEX \<Rightarrow> flow_index
      | ADAPTIVE_EXPONENT \<Rightarrow> adaptive_exponent
      | BULK_MODULUS \<Rightarrow> bulk_modulus)"

text \<open>The same for the second reading.\<close>

definition double_properties_of :: "double \<Rightarrow> double \<Rightarrow> double \<Rightarrow> double \<Rightarrow> double \<Rightarrow> Variable \<Rightarrow> double" where
  "double_properties_of dynamic_viscosity yield_shear flow_index adaptive_exponent bulk_modulus =
     (\<lambda>v. case v of
        DYNAMIC_VISCOSITY \<Rightarrow> dynamic_viscosity
      | YIELD_SHEAR \<Rightarrow> yield_shear
      | FLOW_INDEX \<Rightarrow> flow_index
      | ADAPTIVE_EXPONENT \<Rightarrow> adaptive_exponent
      | BULK_MODULUS \<Rightarrow> bulk_modulus)"

section \<open>Auxiliary facts\<close>

lemma properties_of_simps [simp]:
  "properties_of k t n m b DYNAMIC_VISCOSITY = k"
  "properties_of k t n m b YIELD_SHEAR = t"
  "properties_of k t n m b FLOW_INDEX = n"
  "properties_of k t n m b ADAPTIVE_EXPONENT = m"
  "properties_of k t n m b BULK_MODULUS = b"
  by (simp_all add: properties_of_def)

lemma StressVector_CalculateMaterialResponseCauchy:
  "StressVector (CalculateMaterialResponseCauchy ecm rValues) =
     computeDeviatoricStress (computeEffectiveViscosity rValues)
       (StrainVector rValues) (StressVector rValues)"
  by (simp add: CalculateMaterialResponseCauchy_def Let_def)

lemma computeDeviatoricStress_3:
  "length s = 3 \<Longrightarrow>
   computeDeviatoricStress mu e s =
     [2 * mu * (e ! 0 - (e ! 0 + e ! 1) / 3),
      2 * mu * (e ! 1 - (e ! 0 + e ! 1) / 3),
      2 * mu * e ! 2]"
  by (cases s rule: list.exhaust; cases "tl s"; cases "tl (tl s)")
     (auto simp add: computeDeviatoricStress_def Let_def)

lemma equivalent_strain_rate_shear:
  "equivalent_strain_rate [0, 0, x] = 2 * \<bar>x\<bar>"
proof -
  have "sqrt (4 * x * x) = sqrt ((2 * x)\<^sup>2)"
    by (simp add: power2_eq_square)
  also have "\<dots> = \<bar>2 * x\<bar>"
    by (rule real_sqrt_abs)
  finally show ?thesis
    by (simp add: equivalent_strain_rate_def abs_mult)
qed

section \<open>The equivalent strain rate\<close>

text \<open>
  C2: for a strain vector with the Voigt components \<open>eps_xx\<close>, \<open>eps_yy\<close>, \<open>eps_xy\<close>, the
  equivalent strain rate is \<open>sqrt (2 eps_xx\<^sup>2 + 2 eps_yy\<^sup>2 + 4 eps_xy\<^sup>2)\<close>.
\<close>

theorem equivalent_strain_rate_formula:
  "equivalent_strain_rate [eps_xx, eps_yy, eps_xy]
     = sqrt (2 * eps_xx\<^sup>2 + 2 * eps_yy\<^sup>2 + 4 * eps_xy\<^sup>2)"
  by (simp add: equivalent_strain_rate_def power2_eq_square)

section \<open>The effective viscosity\<close>

text \<open>
  C1: for every strain vector and every parameter set (non-negative or not), the
  effective viscosity is \<open>yield_shear * adaptive_exponent\<close> when the equivalent strain
  rate is below \<open>1e-8\<close>, and otherwise
  \<open>dynamic_viscosity * esr powr (flow_index - 1) + (1 - exp (- adaptive_exponent * esr)) * yield_shear / esr\<close>.
\<close>

theorem computeEffectiveViscosity_branches:
  "computeEffectiveViscosity rValues =
     (if equivalent_strain_rate (StrainVector rValues) < 1 / 10 ^ 8
      then MaterialProperties rValues YIELD_SHEAR * MaterialProperties rValues ADAPTIVE_EXPONENT
      else MaterialProperties rValues DYNAMIC_VISCOSITY
             * equivalent_strain_rate (StrainVector rValues)
                 powr (MaterialProperties rValues FLOW_INDEX - 1)
           + (1 - exp (- MaterialProperties rValues ADAPTIVE_EXPONENT
                         * equivalent_strain_rate (StrainVector rValues)))
             * MaterialProperties rValues YIELD_SHEAR
             / equivalent_strain_rate (StrainVector rValues))"
  by (simp add: computeEffectiveViscosity_def effective_dynamic_viscosity_def
      regularized_viscosity_def GetEffectiveMaterialParameter_def regularization_def
      tolerance_def Let_def)

text \<open>
  C10: the comparison with the tolerance is strict. Below \<open>1e-8\<close> the constant
  \<open>yield_shear * adaptive_exponent\<close> is returned; from \<open>1e-8\<close> on, the value \<open>1e-8\<close>
  itself included, the regularized formula is. The strain vector \<open>(0, 0, 5e-9)\<close> has the
  equivalent strain rate \<open>1e-8\<close> exactly, and the call takes the regularized branch there.
\<close>

theorem tolerance_comparison_strict:
  "(esr < 1 / 10 ^ 8 \<longrightarrow>
      effective_dynamic_viscosity k t m n esr = t * m)
   \<and> (1 / 10 ^ 8 \<le> esr \<longrightarrow>
      effective_dynamic_viscosity k t m n esr = regularized_viscosity k t m n esr)
   \<and> equivalent_strain_rate [0, 0, 1 / (2 * 10 ^ 8)] = 1 / 10 ^ 8
   \<and> computeEffectiveViscosity
        \<lparr>Options = opts, MaterialProperties = properties_of k t n m b,
         StrainVector = [0, 0, 1 / (2 * 10 ^ 8)], StressVector = s, ConstitutiveMatrix = C\<rparr>
       = regularized_viscosity k t m n (1 / 10 ^ 8)"
proof -
  have g: "equivalent_strain_rate [0, 0, 1 / (2 * 10 ^ 8)] = tolerance"
    by (simp add: equivalent_strain_rate_shear tolerance_def)
  have mu: "computeEffectiveViscosity
        \<lparr>Options = opts, MaterialProperties = properties_of k t n m b,
         StrainVector = [0, 0, 1 / (2 * 10 ^ 8)], StressVector = s, ConstitutiveMatrix = C\<rparr>
       = regularized_viscosity k t m n tolerance"
    unfolding computeEffectiveViscosity_def Let_def
    by (simp only: Parameters.simps g effective_dynamic_viscosity_def
        GetEffectiveMaterialParameter_def properties_of_simps) simp
  have br: "(esr < tolerance \<longrightarrow> effective_dynamic_viscosity k t m n esr = t * m)
    \<and> (tolerance \<le> esr \<longrightarrow>
      effective_dynamic_viscosity k t m n esr = regularized_viscosity k t m n esr)"
    by (simp add: effective_dynamic_viscosity_def)
  from g mu br show ?thesis
    unfolding tolerance_def by blast
qed

text \<open>
  The two branches at concrete inputs: at \<open>esr = 0\<close> the constant \<open>3 * 2\<close>, at
  \<open>esr = 1e-8\<close> the regularized value \<open>1\<close>, where the constant would be \<open>0\<close>.
\<close>

theorem tolerance_comparison_strict_witness:
  "(0::real) < 1 / 10 ^ 8 \<and> effective_dynamic_viscosity 1 3 2 1 0 = 6
   \<and> (1::real) / 10 ^ 8 \<le> 1 / 10 ^ 8
   \<and> effective_dynamic_viscosity 1 0 1 1 (1 / 10 ^ 8) = 1"
  using tolerance_comparison_strict [of 0 1 3 2 1]
    tolerance_comparison_strict [of "1 / 10 ^ 8" 1 0 1 1]
  by (simp add: regularized_viscosity_def)

section \<open>The deviatoric stress\<close>

text \<open>
  C3: for every strain vector \<open>(eps_xx, eps_yy, eps_xy)\<close> the stress vector after the
  call is \<open>(2 mu_eff (eps_xx - trace / 3), 2 mu_eff (eps_yy - trace / 3), 2 mu_eff eps_xy)\<close>
  with \<open>trace = eps_xx + eps_yy\<close> and \<open>mu_eff\<close> the effective viscosity of the call, and
  the three assignments write these components for every \<open>mu_eff\<close>: the trace is divided
  by 3, not by 2. The stress buffer has the size 3 of \<^verbatim>\<open>GetStrainSize\<close>.
\<close>

theorem stress_written:
  assumes "StrainVector rValues = [eps_xx, eps_yy, eps_xy]"
    and "length (StressVector rValues) = 3"
  shows "StressVector (CalculateMaterialResponseCauchy ecm rValues) =
     [2 * computeEffectiveViscosity rValues * (eps_xx - (eps_xx + eps_yy) / 3),
      2 * computeEffectiveViscosity rValues * (eps_yy - (eps_xx + eps_yy) / 3),
      2 * computeEffectiveViscosity rValues * eps_xy]
   \<and> (\<forall>mu_eff.
        computeDeviatoricStress mu_eff (StrainVector rValues) (StressVector rValues) =
          [2 * mu_eff * (eps_xx - (eps_xx + eps_yy) / 3),
           2 * mu_eff * (eps_yy - (eps_xx + eps_yy) / 3),
           2 * mu_eff * eps_xy])"
  using assms
  by (simp add: StressVector_CalculateMaterialResponseCauchy computeDeviatoricStress_3)

lemma computeEffectiveViscosity_110:
  "computeEffectiveViscosity
    \<lparr>Options = {}, MaterialProperties = properties_of 1 0 1 1 0,
      StrainVector = [1, 1, 0], StressVector = [0, 0, 0], ConstitutiveMatrix = []\<rparr> = 1"
proof -
  have "equivalent_strain_rate [1, 1, 0] = 2"
    by (simp add: equivalent_strain_rate_def)
  then show ?thesis
    by (simp add: computeEffectiveViscosity_def effective_dynamic_viscosity_def
        regularized_viscosity_def GetEffectiveMaterialParameter_def tolerance_def Let_def)
qed

theorem stress_written_witness:
  "StrainVector \<lparr>Options = {}, MaterialProperties = properties_of 1 0 1 1 0,
      StrainVector = [1, 1, 0], StressVector = [0, 0, 0], ConstitutiveMatrix = []\<rparr> = [1, 1, 0]
   \<and> length (StressVector \<lparr>Options = {}, MaterialProperties = properties_of 1 0 1 1 0,
      StrainVector = [1, 1, 0], StressVector = [0, 0, 0], ConstitutiveMatrix = []\<rparr>) = 3
   \<and> StressVector (CalculateMaterialResponseCauchy (\<lambda>mu C. C)
        \<lparr>Options = {}, MaterialProperties = properties_of 1 0 1 1 0,
          StrainVector = [1, 1, 0], StressVector = [0, 0, 0], ConstitutiveMatrix = []\<rparr>)
      = [2 / 3, 2 / 3, 0]"
  using stress_written [of "\<lparr>Options = {}, MaterialProperties = properties_of 1 0 1 1 0,
      StrainVector = [1, 1, 0], StressVector = [0, 0, 0], ConstitutiveMatrix = []\<rparr>" 1 1 0
      "\<lambda>mu C. C"]
  by (simp add: computeEffectiveViscosity_110)

text \<open>
  C7: for every strain vector and every effective viscosity, the two normal components
  the assembler writes add up to \<open>2 mu_eff trace / 3\<close>, which is not identically zero:
  for \<open>mu_eff = 1\<close> and the strain \<open>(1, 0, 0)\<close> the sum is \<open>2 / 3\<close>.
\<close>

theorem normal_stress_sum:
  "computeDeviatoricStress mu_eff [eps_xx, eps_yy, eps_xy] [s0, s1, s2] ! 0
   + computeDeviatoricStress mu_eff [eps_xx, eps_yy, eps_xy] [s0, s1, s2] ! 1
     = 2 * mu_eff * (eps_xx + eps_yy) / 3
   \<and> computeDeviatoricStress 1 [1, 0, 0] [0, 0, 0] ! 0
     + computeDeviatoricStress 1 [1, 0, 0] [0, 0, 0] ! 1 = 2 / 3"
  by (simp add: computeDeviatoricStress_def Let_def algebra_simps)

text \<open>
  C9: the pure shear case. For the strain \<open>(0, 0, 1)\<close> and the parameters
  \<open>dynamic_viscosity = 1\<close>, \<open>yield_shear = 0\<close>, \<open>flow_index = 1\<close>, \<open>adaptive_exponent = 1\<close>
  the equivalent strain rate is 2, the effective viscosity is 1 and the stress vector
  after the call is \<open>(0, 0, 2)\<close>.
\<close>

theorem pure_shear_case:
  "equivalent_strain_rate [0, 0, 1] = 2
   \<and> computeEffectiveViscosity
        \<lparr>Options = opts, MaterialProperties = properties_of 1 0 1 1 bulk,
          StrainVector = [0, 0, 1], StressVector = [s0, s1, s2], ConstitutiveMatrix = C\<rparr> = 1
   \<and> StressVector (CalculateMaterialResponseCauchy ecm
        \<lparr>Options = opts, MaterialProperties = properties_of 1 0 1 1 bulk,
          StrainVector = [0, 0, 1], StressVector = [s0, s1, s2], ConstitutiveMatrix = C\<rparr>)
      = [0, 0, 2]"
proof -
  have g: "equivalent_strain_rate [0, 0, 1] = 2"
    by (simp add: equivalent_strain_rate_def)
  have mu: "computeEffectiveViscosity
        \<lparr>Options = opts, MaterialProperties = properties_of 1 0 1 1 bulk,
          StrainVector = [0, 0, 1], StressVector = [s0, s1, s2], ConstitutiveMatrix = C\<rparr> = 1"
    by (simp add: computeEffectiveViscosity_def effective_dynamic_viscosity_def g
        regularized_viscosity_def GetEffectiveMaterialParameter_def tolerance_def Let_def)
  show ?thesis
    by (simp add: g mu StressVector_CalculateMaterialResponseCauchy
        computeDeviatoricStress_def Let_def)
qed

section \<open>What the call writes\<close>

text \<open>
  C8: the constitutive matrix after the call is the result of
  \<^verbatim>\<open>EffectiveViscousConstitutiveMatrix2D\<close> when \<^verbatim>\<open>COMPUTE_CONSTITUTIVE_TENSOR\<close> is set, and
  the caller's matrix unchanged when it is not; the strain vector, the material
  properties and the options are the same after the call as before.
\<close>

theorem constitutive_matrix_frame:
  "ConstitutiveMatrix (CalculateMaterialResponseCauchy ecm rValues) =
     (if COMPUTE_CONSTITUTIVE_TENSOR \<in> Options rValues
      then ecm (computeEffectiveViscosity rValues) (ConstitutiveMatrix rValues)
      else ConstitutiveMatrix rValues)
   \<and> StrainVector (CalculateMaterialResponseCauchy ecm rValues) = StrainVector rValues
   \<and> MaterialProperties (CalculateMaterialResponseCauchy ecm rValues) = MaterialProperties rValues
   \<and> Options (CalculateMaterialResponseCauchy ecm rValues) = Options rValues"
  by (simp add: CalculateMaterialResponseCauchy_def Let_def Is_def)

section \<open>Validation\<close>

text \<open>
  C4, as stated, fails: with a negative dynamic viscosity and a negative yield shear,
  \<open>Check\<close> raises the exception that names \<^verbatim>\<open>DYNAMIC_VISCOSITY\<close>, and the violation of
  \<^verbatim>\<open>YIELD_SHEAR\<close> is not reported.
\<close>

theorem Check_two_violations:
  "properties_of (- 1) (- 1) 0 0 0 DYNAMIC_VISCOSITY < 0
   \<and> properties_of (- 1) (- 1) 0 0 0 YIELD_SHEAR < 0
   \<and> Check (properties_of (- 1) (- 1) 0 0 0) () () =
       Inl (violation (properties_of (- 1) (- 1) 0 0 0) DYNAMIC_VISCOSITY)
   \<and> Check (properties_of (- 1) (- 1) 0 0 0) () () \<noteq>
       Inl (violation (properties_of (- 1) (- 1) 0 0 0) YIELD_SHEAR)"
  by (simp add: Check_def KRATOS_ERROR_IF_def violation_def)

text \<open>
  C4, amended: \<open>Check\<close> tests the five parameters in the order dynamic viscosity, yield
  shear, flow index, adaptive exponent, bulk modulus, and raises an exception for the
  first negative one, naming that parameter and giving its value; parameters after it
  are not examined. With no negative parameter it returns 0.
\<close>

theorem Check_first_violation:
  "Check rMaterialProperties rElementGeometry rCurrentProcessInfo =
     (case find (\<lambda>v. rMaterialProperties v < 0) check_order of
        None \<Rightarrow> Inr 0
      | Some v \<Rightarrow> Inl (violation rMaterialProperties v))"
  by (simp add: Check_def KRATOS_ERROR_IF_def check_order_def violation_def)

section \<open>The limit of the regularized branch at zero strain rate\<close>

lemma regularization_quotient_tendsto:
  "((\<lambda>esr. regularization m esr / esr) \<longlongrightarrow> m) (at_right 0)"
proof -
  have "((\<lambda>esr. 1 - exp (- m * esr)) has_real_derivative m) (at 0)"
    by (auto intro!: derivative_eq_intros)
  then have "(\<lambda>h. (1 - exp (- m * (0 + h)) - (1 - exp (- m * 0))) / h) \<midarrow>0\<rightarrow> m"
    by (simp only: DERIV_def)
  then have "((\<lambda>h. (1 - exp (- m * h)) / h) \<longlongrightarrow> m) (at 0)"
    by simp
  then have "((\<lambda>h. (1 - exp (- m * h)) / h) \<longlongrightarrow> m) (at_right 0)"
    by (rule tendsto_mono [rotated]) (simp add: at_le)
  then show ?thesis
    by (simp add: regularization_def)
qed

lemma powr_tendsto_zero:
  assumes "0 < b"
  shows "((\<lambda>esr::real. esr powr b) \<longlongrightarrow> 0) (at_right 0)"
proof (rule tendsto_zero_powrI)
  show "((\<lambda>esr::real. esr) \<longlongrightarrow> 0) (at_right 0)"
    by (rule tendsto_ident_at)
  show "((\<lambda>esr::real. b) \<longlongrightarrow> b) (at_right 0)"
    by (rule tendsto_const)
  show "\<forall>\<^sub>F esr in at_right 0. (0::real) \<le> esr"
    using eventually_at_right_less [of "0::real"] by eventually_elim simp
  show "0 < b" by fact
qed

lemma yield_term_tendsto:
  "((\<lambda>esr. regularization m esr * t / esr) \<longlongrightarrow> t * m) (at_right 0)"
proof -
  have "((\<lambda>esr. regularization m esr / esr * t) \<longlongrightarrow> m * t) (at_right 0)"
    by (intro tendsto_mult regularization_quotient_tendsto tendsto_const)
  then show ?thesis
    by (simp add: mult.commute)
qed

lemma powr_nonpos_ge_one:
  assumes "0 < x" "x < 1" "e \<le> 0"
  shows "1 \<le> x powr (e::real)"
proof -
  have "ln x < 0" using assms by simp
  then have "0 \<le> e * ln x" using assms(3) by (simp add: mult_nonpos_nonpos)
  then show ?thesis using assms(1) by (simp add: powr_def)
qed

text \<open>
  C5, as stated, fails: for \<open>dynamic_viscosity = 1\<close>, \<open>yield_shear = 0\<close>,
  \<open>adaptive_exponent = 1\<close>, \<open>flow_index = 1\<close> the regularized formula is constantly 1 on
  positive strain rates, so it does not tend to \<open>yield_shear * adaptive_exponent = 0\<close>.
\<close>

theorem regularized_branch_limit_counterexample:
  "\<not> (regularized_viscosity 1 0 1 1 \<longlongrightarrow> 0 * 1) (at_right 0)"
proof
  assume lim: "(regularized_viscosity 1 0 1 1 \<longlongrightarrow> 0 * 1) (at_right 0)"
  have "\<forall>\<^sub>F esr in at_right 0. regularized_viscosity 1 0 1 1 esr = 1"
    using eventually_at_right_less [of "0::real"]
    by eventually_elim (simp add: regularized_viscosity_def)
  then have "(regularized_viscosity 1 0 1 1 \<longlongrightarrow> 1) (at_right 0)"
    by (simp add: tendsto_eventually)
  with lim have "(0::real) * 1 = 1"
    by (rule tendsto_unique [rotated 1]) simp
  then show False by simp
qed

text \<open>
  C5, amended: as the strain rate tends to 0 from above, the regularized formula tends to
  \<open>yield_shear * adaptive_exponent\<close> exactly when \<open>dynamic_viscosity = 0\<close> or
  \<open>flow_index > 1\<close>, for every parameter set, the non-negative ones included.
\<close>

theorem regularized_viscosity_limit:
  "(regularized_viscosity k t m n \<longlongrightarrow> t * m) (at_right 0) \<longleftrightarrow> k = 0 \<or> 1 < n"
proof
  assume kn: "k = 0 \<or> 1 < n"
  have "((\<lambda>esr. k * esr powr (n - 1)) \<longlongrightarrow> 0) (at_right 0)"
  proof (cases "k = 0")
    case True
    then show ?thesis by simp
  next
    case False
    with kn have "0 < n - 1" by simp
    then have "((\<lambda>esr. k * esr powr (n - 1)) \<longlongrightarrow> k * 0) (at_right 0)"
      by (intro tendsto_mult tendsto_const powr_tendsto_zero)
    then show ?thesis by simp
  qed
  then have "((\<lambda>esr. k * esr powr (n - 1) + regularization m esr * t / esr)
      \<longlongrightarrow> 0 + t * m) (at_right 0)"
    by (intro tendsto_add yield_term_tendsto)
  then have "((\<lambda>esr. regularized_viscosity k t m n esr) \<longlongrightarrow> t * m) (at_right 0)"
    by (simp add: regularized_viscosity_def)
  then show "(regularized_viscosity k t m n \<longlongrightarrow> t * m) (at_right 0)"
    by simp
next
  assume lim: "(regularized_viscosity k t m n \<longlongrightarrow> t * m) (at_right 0)"
  show "k = 0 \<or> 1 < n"
  proof (rule ccontr)
    assume "\<not> (k = 0 \<or> 1 < n)"
    then have k: "k \<noteq> 0" and n: "n - 1 \<le> 0" by simp_all
    from lim have "((\<lambda>esr. regularized_viscosity k t m n esr) \<longlongrightarrow> t * m) (at_right 0)"
      by simp
    then have "((\<lambda>esr. regularized_viscosity k t m n esr - regularization m esr * t / esr)
        \<longlongrightarrow> t * m - t * m) (at_right 0)"
      by (intro tendsto_diff yield_term_tendsto)
    then have "((\<lambda>esr. k * esr powr (n - 1)) \<longlongrightarrow> 0) (at_right 0)"
      by (simp add: regularized_viscosity_def)
    then have "((\<lambda>esr. inverse k * (k * esr powr (n - 1))) \<longlongrightarrow> inverse k * 0) (at_right 0)"
      by (intro tendsto_mult tendsto_const)
    moreover have "inverse k * (k * esr powr (n - 1)) = esr powr (n - 1)" for esr
      using k by simp
    ultimately have zero: "((\<lambda>esr. esr powr (n - 1)) \<longlongrightarrow> 0) (at_right 0)"
      by simp
    have "\<forall>\<^sub>F esr in at_right (0::real). esr \<in> {0<..<1}"
      by (rule eventually_at_right_real) simp
    then have "\<forall>\<^sub>F esr in at_right 0. 1 \<le> esr powr (n - 1)"
      by eventually_elim (auto intro: powr_nonpos_ge_one n)
    then have "(1::real) \<le> 0"
      by (rule tendsto_lowerbound [OF zero]) simp
    then show False by simp
  qed
qed

section \<open>Rounding to nearest\<close>


lemma round_half_even_ge:
  assumes "of_int N \<le> q"
  shows "N \<le> round_half_even q"
proof -
  from assms have "N \<le> \<lfloor>q\<rfloor>" by (simp add: le_floor_iff)
  then show ?thesis by (auto simp add: round_half_even_def)
qed

lemma round_half_even_of_int [simp]: "round_half_even (of_int n) = n"
  by (simp add: round_half_even_def)

lemma ulp_pos: "0 < ulp r"
  by (simp add: ulp_def)


lemma round_to_nearest_ge:
  assumes "of_int N * ulp r \<le> r"
  shows "of_int N * ulp r \<le> round_to_nearest r"
proof (cases "r = 0")
  case True
  with assms show ?thesis by (simp add: round_to_nearest_def)
next
  case False
  have "of_int N \<le> r / ulp r"
    using assms ulp_pos [of r] by (simp add: field_simps)
  then have "N \<le> round_half_even (r / ulp r)"
    by (rule round_half_even_ge)
  then have "of_int N * ulp r \<le> of_int (round_half_even (r / ulp r)) * ulp r"
    using ulp_pos [of r] by simp
  with False show ?thesis by (simp add: round_to_nearest_def)
qed



lemma floor_log_bounds:
  assumes "r \<noteq> 0"
  shows "2 powr of_int \<lfloor>log 2 \<bar>r\<bar>\<rfloor> \<le> \<bar>r\<bar>"
    and "\<bar>r\<bar> < 2 powr of_int (\<lfloor>log 2 \<bar>r\<bar>\<rfloor> + 1)"
proof -
  have pos: "0 < \<bar>r\<bar>" using assms by simp
  show "2 powr of_int \<lfloor>log 2 \<bar>r\<bar>\<rfloor> \<le> \<bar>r\<bar>"
    using pos by (simp add: powr_le_iff)
  show "\<bar>r\<bar> < 2 powr of_int (\<lfloor>log 2 \<bar>r\<bar>\<rfloor> + 1)"
    using pos by (simp add: less_powr_iff)
qed

lemma floor_log_le:
  assumes "r \<noteq> 0" and "\<bar>r\<bar> < 2 powr of_int e"
  shows "\<lfloor>log 2 \<bar>r\<bar>\<rfloor> < e"
proof -
  have "log 2 \<bar>r\<bar> < of_int e"
    using assms by (simp add: log_less_iff)
  then show ?thesis by (simp add: floor_less_iff)
qed

lemma floor_log_ge:
  assumes "2 powr of_int e \<le> \<bar>r\<bar>"
  shows "e \<le> \<lfloor>log 2 \<bar>r\<bar>\<rfloor>"
proof -
  have "0 < \<bar>r\<bar>"
    using assms by (smt (verit) powr_gt_zero)
  then have "of_int e \<le> log 2 \<bar>r\<bar>"
    using assms by (simp add: le_log_iff)
  then show ?thesis by (simp add: le_floor_iff)
qed

lemma two_powr_of_int_nonneg:
  assumes "0 \<le> j"
  shows "(2::real) powr of_int j = of_int (2 ^ nat j)"
  using assms by (simp add: powr_int)


lemma power_of_two_ulp:
  assumes "binade r - 52 \<le> e"
  shows "2 powr of_int e = of_int (2 ^ nat (e - (binade r - 52))) * ulp r"
proof -
  have "(2::real) powr of_int e
      = 2 powr (of_int (e - (binade r - 52)) + of_int (binade r - 52))"
    by simp
  also have "\<dots> = 2 powr of_int (e - (binade r - 52)) * 2 powr of_int (binade r - 52)"
    by (simp only: powr_add)
  also have "(2::real) powr of_int (e - (binade r - 52))
      = of_int (2 ^ nat (e - (binade r - 52)))"
    using assms by (intro two_powr_of_int_nonneg) simp
  finally show ?thesis by (simp add: ulp_def)
qed


lemma round_to_nearest_ge_power:
  assumes "2 powr of_int e \<le> r" and "binade r - 52 \<le> e"
  shows "2 powr of_int e \<le> round_to_nearest r"
  using assms(1) unfolding power_of_two_ulp [OF assms(2)]
  by (rule round_to_nearest_ge)


lemma round_to_nearest_overflow:
  assumes "2 ^ 1024 \<le> r"
  shows "2 ^ 1024 \<le> round_to_nearest r"
proof -
  have r: "0 < r" "r \<noteq> 0" "\<bar>r\<bar> = r"
    using assms by (smt (verit) zero_less_power)+
  have "(2::real) powr of_int 1024 = 2 ^ 1024"
    by (simp add: powr_int)
  then have "2 powr of_int 1024 \<le> \<bar>r\<bar>"
    using assms r by simp
  then have e: "1024 \<le> \<lfloor>log 2 \<bar>r\<bar>\<rfloor>"
    by (rule floor_log_ge)
  then have b: "binade r = \<lfloor>log 2 \<bar>r\<bar>\<rfloor>"
    by (simp add: binade_def)
  have "2 powr of_int (binade r) \<le> r"
    using floor_log_bounds(1) [OF r(2)] r(3) b by simp
  then have "2 powr of_int (binade r) \<le> round_to_nearest r"
    by (rule round_to_nearest_ge_power) simp
  moreover have "(2::real) powr of_int 1024 \<le> 2 powr of_int (binade r)"
    using e b by (intro powr_mono) simp_all
  ultimately show ?thesis
    by (simp add: powr_int)
qed

lemma round_to_nearest_representable:
  assumes n: "\<bar>n\<bar> < 2 ^ 53" and k: "- 1074 \<le> k"
  shows "round_to_nearest (of_int n * 2 powr of_int k) = of_int n * 2 powr of_int k"
proof (cases "n = 0")
  case True
  then show ?thesis by (simp add: round_to_nearest_def)
next
  case False
  define r :: real where "r = of_int n * 2 powr of_int k"
  have r0: "r \<noteq> 0"
    using False by (simp add: r_def)
  have "\<bar>real_of_int n\<bar> < 2 ^ 53"
    using n by (metis of_int_abs of_int_less_numeral_power_cancel_iff)
  then have "\<bar>r\<bar> < 2 ^ 53 * 2 powr of_int k"
    by (simp add: r_def abs_mult)
  also have "\<dots> = 2 powr of_int (53 + k)"
    by (simp add: powr_add powr_int)
  finally have "\<lfloor>log 2 \<bar>r\<bar>\<rfloor> < 53 + k"
    using r0 by (intro floor_log_le)
  then have e: "0 \<le> k - (binade r - 52)"
    using k by (simp add: binade_def)
  define M :: int where "M = 2 ^ nat (k - (binade r - 52))"
  have "2 powr of_int k = of_int M * ulp r"
    unfolding M_def using e by (intro power_of_two_ulp) simp
  then have rM: "r = of_int (n * M) * ulp r"
    by (simp add: r_def)
  then have "r / ulp r = of_int (n * M) * ulp r / ulp r"
    by simp
  also have "\<dots> = of_int (n * M)"
    using ulp_pos [of r] by simp
  finally have "round_half_even (r / ulp r) = n * M"
    by (simp only: round_half_even_of_int)
  then have "of_int (round_half_even (r / ulp r)) * ulp r = r"
    using rM by simp
  then show ?thesis
    using r0 unfolding r_def [symmetric] by (simp add: round_to_nearest_def)
qed

lemma round_to_nearest_of_int:
  assumes "\<bar>n\<bar> < 2 ^ 53"
  shows "round_to_nearest (of_int n) = of_int n"
  using round_to_nearest_representable [OF assms, of 0] by simp


lemma floor_log_eq:
  assumes "2 powr of_int e \<le> \<bar>r\<bar>" and "\<bar>r\<bar> < 2 powr of_int (e + 1)"
  shows "\<lfloor>log 2 \<bar>r\<bar>\<rfloor> = e"
proof -
  have "r \<noteq> 0"
    using assms(1) by (smt (verit) powr_gt_zero)
  then have "\<lfloor>log 2 \<bar>r\<bar>\<rfloor> < e + 1"
    using assms(2) by (rule floor_log_le)
  moreover have "e \<le> \<lfloor>log 2 \<bar>r\<bar>\<rfloor>"
    using assms(1) by (rule floor_log_ge)
  ultimately show ?thesis by simp
qed

lemma round_to_nearest_eval:
  assumes "2 powr of_int e \<le> \<bar>r\<bar>" and "\<bar>r\<bar> < 2 powr of_int (e + 1)"
    and "- 1022 \<le> e"
    and "round_half_even (r / 2 powr of_int (e - 52)) = n"
  shows "round_to_nearest r = of_int n * 2 powr of_int (e - 52)"
proof -
  have "r \<noteq> 0"
    using assms(1) by (smt (verit) powr_gt_zero)
  moreover have "binade r = e"
    using floor_log_eq [OF assms(1,2)] assms(3) by (simp add: binade_def)
  ultimately show ?thesis
    using assms(4) by (simp add: round_to_nearest_def ulp_def)
qed

lemma round_to_nearest_tolerance:
  "round_to_nearest (1 / 10 ^ 8) = 6044629098073146 / 2 ^ 79"
proof -
  have "round_to_nearest (1 / 10 ^ 8)
      = of_int 6044629098073146 * 2 powr of_int (- 27 - 52)"
    by (rule round_to_nearest_eval) (simp_all add: powr_minus_divide round_half_even_def)
  then show ?thesis
    by (simp add: powr_minus_divide)
qed

lemma round_to_nearest_tie:
  "round_to_nearest ((3 * 2 ^ 511) * (6004799503160661 * 2 ^ 459)) = 2 ^ 1024"
proof -
  have "round_to_nearest ((3 * 2 ^ 511) * (6004799503160661 * 2 ^ 459))
      = of_int 9007199254740992 * 2 powr of_int (1023 - 52)"
    by (rule round_to_nearest_eval) (simp_all add: powr_int round_half_even_def)
  then show ?thesis
    by (simp add: powr_int)
qed

section \<open>Sign and finiteness of the effective viscosity\<close>

lemma nonnegative_simps [simp]:
  "nonnegative (Finite r) = (0 \<le> r)"
  "nonnegative PlusInfinity"
  "\<not> nonnegative MinusInfinity"
  "\<not> nonnegative NaN"
  by (simp_all add: nonnegative_def)










lemma round_double_Finite:
  assumes "round_to_nearest r = v" and "\<bar>v\<bar> < 2 ^ 1024"
  shows "round_double r = Finite v"
  using assms by (auto simp add: round_double_def)

lemma round_double_PlusInfinity:
  assumes "round_to_nearest r = v" and "2 ^ 1024 \<le> v"
  shows "round_double r = PlusInfinity"
  using assms by (auto simp add: round_double_def)

lemma tolerance_double_value:
  "tolerance_double = Finite (6044629098073146 / 2 ^ 79)"
  unfolding tolerance_double_def
  by (rule round_double_Finite [OF round_to_nearest_tolerance]) simp







lemma round_double_zero [simp]: "round_double 0 = Finite 0"
  by (simp add: round_double_def round_to_nearest_def)


lemma round_double_one [simp]: "round_double 1 = Finite 1"
proof -
  have "round_to_nearest (of_int 1) = of_int 1"
    by (intro round_to_nearest_of_int) simp
  then have "round_to_nearest 1 = 1" by simp
  then show ?thesis
    by (rule round_double_Finite) simp
qed

lemma round_double_overflow:
  assumes "2 ^ 1024 \<le> r"
  shows "round_double r = PlusInfinity"
  using round_to_nearest_overflow [OF assms] by (simp add: round_double_def)

lemma round_double_power:
  assumes "j < 1024"
  shows "round_double (2 ^ j) = Finite (2 ^ j)"
proof -
  have "round_to_nearest (of_int 1 * 2 powr of_int (int j)) = of_int 1 * 2 powr of_int (int j)"
    by (intro round_to_nearest_representable) simp_all
  then have "round_to_nearest (2 ^ j) = 2 ^ j"
    by (simp add: powr_realpow)
  moreover have "\<bar>2 ^ j :: real\<bar> < 2 ^ 1024"
  proof -
    have "(2::real) ^ j < 2 ^ 1024"
      using assms by (intro power_strict_increasing) simp_all
    then show ?thesis by simp
  qed
  ultimately show ?thesis
    by (rule round_double_Finite)
qed


lemma d_add_NaN_right [simp]: "d_add x NaN = NaN"
  by (cases x) simp_all

lemma equivalent_strain_rate_double_shear:
  "equivalent_strain_rate_double [Finite 0, Finite 0, c]
     = d_sqrt (d_add (Finite 0) (d_mult (d_mult (Finite 4) c) c))"
  by (simp add: equivalent_strain_rate_double_def)


text \<open>
  A NaN arises as well: a strain component of \<open>2 ^ 600\<close> overflows the sum under the
  square root, and with \<open>adaptive_exponent = 0\<close> the exponent is \<open>0 * Inf\<close>.
\<close>

lemma effective_viscosity_nan:
  "computeEffectiveViscosity_double d_exp d_pow
     (double_properties_of (Finite 1) (Finite 1) (Finite 1) (Finite 0) (Finite 0))
     [Finite 0, Finite 0, Finite (2 ^ 600)] = NaN"
proof -
  have "round_double (4 * 2 ^ 600) = round_double (2 ^ 602)"
    by simp
  also have "\<dots> = Finite (2 ^ 602)"
    by (rule round_double_power) simp
  finally have a: "d_mult (Finite 4) (Finite (2 ^ 600)) = Finite (2 ^ 602)"
    by (simp only: d_mult.simps)
  have "round_double (2 ^ 602 * 2 ^ 600) = PlusInfinity"
    by (rule round_double_overflow) simp
  then have b: "d_mult (Finite (2 ^ 602)) (Finite (2 ^ 600)) = PlusInfinity"
    by (simp only: d_mult.simps)
  have esr: "equivalent_strain_rate_double [Finite 0, Finite 0, Finite (2 ^ 600)] = PlusInfinity"
    unfolding equivalent_strain_rate_double_shear a b by simp
  have reg: "regularization_double d_exp (Finite 0) PlusInfinity = NaN"
    by (simp add: regularization_double_def d_sub_def)
  show ?thesis
    unfolding computeEffectiveViscosity_double_def effective_dynamic_viscosity_double_def
      double_properties_of_def Let_def Variable.case esr reg
    by (simp add: tolerance_double_value)
qed

text \<open>
  The overflow is that of the rounded result: at zero strain the exact product
  \<open>yield_shear * adaptive_exponent\<close> of the two doubles below is \<open>2 ^ 1024 - 2 ^ 970\<close>,
  half way between the largest double and \<open>2 ^ 1024\<close>, and rounds to \<open>+Inf\<close>.
\<close>

lemma yield_times_adaptive_rounds_to_infinity:
  "computeEffectiveViscosity_double d_exp d_pow
     (double_properties_of (Finite 0) (Finite (3 * 2 ^ 511)) (Finite 0)
        (Finite (6004799503160661 * 2 ^ 459)) (Finite 0))
     [Finite 0, Finite 0, Finite 0] = PlusInfinity"
proof -
  have esr: "equivalent_strain_rate_double [Finite 0, Finite 0, Finite 0] = Finite 0"
    by (simp add: equivalent_strain_rate_double_def)
  have "round_double ((3 * 2 ^ 511) * (6004799503160661 * 2 ^ 459)) = PlusInfinity"
    by (rule round_double_PlusInfinity [OF round_to_nearest_tie]) simp
  then have "d_mult (Finite (3 * 2 ^ 511)) (Finite (6004799503160661 * 2 ^ 459)) = PlusInfinity"
    by (simp only: d_mult.simps)
  then show ?thesis
    unfolding computeEffectiveViscosity_double_def effective_dynamic_viscosity_double_def
      double_properties_of_def Let_def Variable.case esr
    by (simp add: tolerance_double_value)
qed




end
